theory Spec2Isabelle
  imports Complex_Main
begin

section \<open>The reward decision service\<close>

text \<open>
  A shallow embedding of the decision engine of the repository: \<^verbatim>\<open>models.py\<close>,
  \<^verbatim>\<open>config.py\<close>, \<^verbatim>\<open>cache.py\<close> (the in-memory backend), \<^verbatim>\<open>persona.py\<close> and
  \<^verbatim>\<open>reward_logic.py\<close>.

  Conventions of the embedding.
  \<^item> A Python \<^verbatim>\<open>float\<close> is a \<^typ>\<open>real\<close>: arithmetic is exact, there is no rounding
    error, no infinity and no NaN. A Python \<^verbatim>\<open>int\<close> is an \<^typ>\<open>int\<close>.
  \<^item> Exceptions are values: a function that can raise returns \<open>error + 'a\<close>. A function
    that also touches the cache returns the cache it leaves behind next to its result,
    because the writes made before an exception stay in the cache.
  \<^item> The cache is the dictionary \<^verbatim>\<open>InMemoryCache._data\<close>, from keys to pairs of a value
    and an optional expiry time.
  \<^item> What the engine reads from its surroundings during one call is a parameter: the
    clock (\<^verbatim>\<open>time.time()\<close>, \<^verbatim>\<open>datetime.now()\<close>), read once per call, the local calendar
    date as the string \<^verbatim>\<open>strftime\<close> gives, and the string \<^verbatim>\<open>uuid.uuid4()\<close> produces.
  \<^item> Python's built-in \<^verbatim>\<open>hash\<close> on strings is a field of the engine: it is a fixed
    function during the life of one process.
  \<^item> A method \<^verbatim>\<open>_name\<close> of the source is the constant \<open>name\<close> here, since an
    identifier cannot start with an underscore.
\<close>

subsection \<open>models.py\<close>

datatype RewardType = XP | CHECKOUT | GOLD

datatype PersonaType = NEW | RETURNING | POWER

text \<open>The \<^verbatim>\<open>.value\<close> of a member of the string enumeration \<^verbatim>\<open>PersonaType\<close>.\<close>

fun PersonaType_value :: "PersonaType \<Rightarrow> string" where
  "PersonaType_value NEW = ''NEW''"
| "PersonaType_value RETURNING = ''RETURNING''"
| "PersonaType_value POWER = ''POWER''"

datatype error = ValidationError | TypeError

record RewardDecisionRequest =
  txn_id :: string
  user_id :: string
  merchant_id :: string
  amount :: real
  txn_type :: string
  ts :: "int option"

text \<open>
  Building a \<^verbatim>\<open>RewardDecisionRequest\<close> validates its fields: \<^verbatim>\<open>amount\<close> is declared
  \<^verbatim>\<open>Field(..., gt=0)\<close>, the one constraint of the class.
\<close>

definition RewardDecisionRequest_new ::
  "string \<Rightarrow> string \<Rightarrow> string \<Rightarrow> real \<Rightarrow> string \<Rightarrow> int option \<Rightarrow> error + RewardDecisionRequest" where
  "RewardDecisionRequest_new t u m a ty s =
     (if a > 0
      then Inr \<lparr>txn_id = t, user_id = u, merchant_id = m, amount = a, txn_type = ty, ts = s\<rparr>
      else Inl ValidationError)"

text \<open>The dictionary \<^verbatim>\<open>meta\<close> of a decision, with the five keys \<^verbatim>\<open>decide\<close> fills in.\<close>

record DecisionMeta =
  meta_persona :: string
  meta_multiplier :: real
  meta_txn_id :: string
  meta_user_id :: string
  meta_merchant_id :: string

record RewardDecisionResponse =
  decision_id :: string
  policy_version :: string
  reward_type :: RewardType
  reward_value :: int
  xp :: int
  reason_codes :: "string list"
  meta :: DecisionMeta

text \<open>
  Building a \<^verbatim>\<open>RewardDecisionResponse\<close> validates \<^verbatim>\<open>reward_value\<close> and \<^verbatim>\<open>xp\<close>, both
  declared \<^verbatim>\<open>Field(..., ge=0)\<close>.
\<close>

definition RewardDecisionResponse_new :: "RewardDecisionResponse \<Rightarrow> error + RewardDecisionResponse" where
  "RewardDecisionResponse_new d =
     (if reward_value d \<ge> 0 \<and> xp d \<ge> 0 then Inr d else Inl ValidationError)"

record UserPersona =
  up_user_id :: string
  persona :: PersonaType
  lifetime_purchases :: int
  last_reward_ts :: "int option"

subsection \<open>Python numbers\<close>

text \<open>\<^verbatim>\<open>int(x)\<close> of a float truncates toward zero.\<close>

definition py_int :: "real \<Rightarrow> int" where
  "py_int x = (if x < 0 then \<lceil>x\<rceil> else \<lfloor>x\<rfloor>)"

subsection \<open>config.py\<close>

record Settings =
  enable_idempotency :: bool
  idempotency_ttl :: int
  persona_cache_ttl :: int
  last_reward_cache_ttl :: int

text \<open>
  The policy document, after YAML loading. Every entry the getters read is optional, the
  getters supply the defaults. \<^verbatim>\<open>reward_types\<close> keeps the order of the document, since
  the engine iterates over it; the weight of an entry is optional as well.
\<close>

record PolicyConfig =
  cfg_version :: "string option"
  cfg_reward_types :: "(string \<times> real option) list"
  cfg_xp_per_rupee :: "real option"
  cfg_max_xp_per_txn :: "int option"
  cfg_persona_multipliers :: "string \<rightharpoonup> real"
  cfg_daily_cap_per_persona :: "string \<rightharpoonup> int"
  cfg_fallback_to_xp :: "bool option"
  cfg_prefer_xp_mode :: "bool option"
  cfg_cooldown_enabled :: "bool option"
  cfg_cooldown_hours :: "int option"

definition default_config :: PolicyConfig where
  "default_config =
     \<lparr>cfg_version = Some ''v1.0.0'',
      cfg_reward_types = [(''XP'', Some 0.7), (''CHECKOUT'', Some 0.2), (''GOLD'', Some 0.1)],
      cfg_xp_per_rupee = Some 0.1,
      cfg_max_xp_per_txn = Some 500,
      cfg_persona_multipliers = map_of [(''NEW'', 1.0), (''RETURNING'', 1.5), (''POWER'', 2.0)],
      cfg_daily_cap_per_persona = map_of [(''NEW'', 0), (''RETURNING'', 1000), (''POWER'', 5000)],
      cfg_fallback_to_xp = Some True,
      cfg_prefer_xp_mode = Some False,
      cfg_cooldown_enabled = Some False,
      cfg_cooldown_hours = Some 24\<rparr>"

definition version :: "PolicyConfig \<Rightarrow> string" where
  "version p = (case cfg_version p of Some v \<Rightarrow> v | None \<Rightarrow> ''v1.0.0'')"

definition get_reward_type_weights :: "PolicyConfig \<Rightarrow> (string \<times> real) list" where
  "get_reward_type_weights p =
     map (\<lambda>(rtype, w). (rtype, case w of Some x \<Rightarrow> x | None \<Rightarrow> 0)) (cfg_reward_types p)"

definition get_xp_per_rupee :: "PolicyConfig \<Rightarrow> real" where
  "get_xp_per_rupee p = (case cfg_xp_per_rupee p of Some x \<Rightarrow> x | None \<Rightarrow> 0.1)"

definition get_max_xp_per_txn :: "PolicyConfig \<Rightarrow> int" where
  "get_max_xp_per_txn p = (case cfg_max_xp_per_txn p of Some x \<Rightarrow> x | None \<Rightarrow> 500)"

definition get_persona_multiplier :: "PolicyConfig \<Rightarrow> string \<Rightarrow> real" where
  "get_persona_multiplier p persona_name =
     (case cfg_persona_multipliers p persona_name of Some x \<Rightarrow> x | None \<Rightarrow> 1.0)"

definition get_daily_cac_cap :: "PolicyConfig \<Rightarrow> string \<Rightarrow> int" where
  "get_daily_cac_cap p persona_name =
     (case cfg_daily_cap_per_persona p persona_name of Some x \<Rightarrow> x | None \<Rightarrow> 0)"

definition get_cac_fallback_to_xp :: "PolicyConfig \<Rightarrow> bool" where
  "get_cac_fallback_to_xp p = (case cfg_fallback_to_xp p of Some b \<Rightarrow> b | None \<Rightarrow> True)"

definition prefer_xp_mode :: "PolicyConfig \<Rightarrow> bool" where
  "prefer_xp_mode p = (case cfg_prefer_xp_mode p of Some b \<Rightarrow> b | None \<Rightarrow> False)"

definition cooldown_enabled :: "PolicyConfig \<Rightarrow> bool" where
  "cooldown_enabled p = (case cfg_cooldown_enabled p of Some b \<Rightarrow> b | None \<Rightarrow> False)"

definition get_cooldown_hours :: "PolicyConfig \<Rightarrow> int" where
  "get_cooldown_hours p = (case cfg_cooldown_hours p of Some h \<Rightarrow> h | None \<Rightarrow> 24)"

subsection \<open>cache.py: the in-memory backend\<close>

text \<open>
  The values this repository stores: a dumped decision, a dumped persona, a float (the
  daily spend) and an int (the time of the last reward).
\<close>

datatype cache_value =
    VDecision RewardDecisionResponse
  | VPersona UserPersona
  | VFloat real
  | VInt int

type_synonym InMemoryCache = "string \<rightharpoonup> (cache_value \<times> real option)"

text \<open>
  \<^verbatim>\<open>get\<close> returns the value and drops an entry it finds expired; the first argument is
  \<^verbatim>\<open>time.time()\<close>.
\<close>

definition cache_get :: "real \<Rightarrow> string \<Rightarrow> InMemoryCache \<Rightarrow> cache_value option \<times> InMemoryCache" where
  "cache_get now key d =
     (case d key of
        None \<Rightarrow> (None, d)
      | Some (v, expiry) \<Rightarrow>
          (case expiry of
             None \<Rightarrow> (Some v, d)
           | Some e \<Rightarrow> if now > e then (None, d(key := None)) else (Some v, d)))"

definition cache_set :: "real \<Rightarrow> string \<Rightarrow> cache_value \<Rightarrow> int option \<Rightarrow> InMemoryCache \<Rightarrow> InMemoryCache" where
  "cache_set now key v ttl d =
     d(key \<mapsto> (v, case ttl of None \<Rightarrow> None | Some t \<Rightarrow> Some (now + real_of_int t)))"

text \<open>
  Truth value of what \<^verbatim>\<open>get\<close> returned, as \<^verbatim>\<open>if cached:\<close> and \<^verbatim>\<open>cached or 0.0\<close> test
  it: \<^verbatim>\<open>None\<close> and the numbers equal to zero are false, a dumped model is a non-empty
  dictionary and true.
\<close>

fun truthy :: "cache_value option \<Rightarrow> bool" where
  "truthy None = False"
| "truthy (Some (VFloat x)) = (x \<noteq> 0)"
| "truthy (Some (VInt n)) = (n \<noteq> 0)"
| "truthy (Some (VDecision d)) = True"
| "truthy (Some (VPersona p)) = True"

text \<open>A cached value used as a number in arithmetic; a dictionary there is a \<^verbatim>\<open>TypeError\<close>.\<close>

fun as_number :: "cache_value \<Rightarrow> error + real" where
  "as_number (VFloat x) = Inr x"
| "as_number (VInt n) = Inr (real_of_int n)"
| "as_number (VDecision d) = Inl TypeError"
| "as_number (VPersona p) = Inl TypeError"

text \<open>
  \<^verbatim>\<open>RewardDecisionResponse(**cached)\<close>: a dumped decision is validated again, a dumped
  persona lacks the required fields, a number or \<^verbatim>\<open>None\<close> is no mapping.
\<close>

fun RewardDecisionResponse_load :: "cache_value option \<Rightarrow> error + RewardDecisionResponse" where
  "RewardDecisionResponse_load (Some (VDecision d)) = RewardDecisionResponse_new d"
| "RewardDecisionResponse_load (Some (VPersona p)) = Inl ValidationError"
| "RewardDecisionResponse_load (Some (VFloat x)) = Inl TypeError"
| "RewardDecisionResponse_load (Some (VInt n)) = Inl TypeError"
| "RewardDecisionResponse_load None = Inl TypeError"

text \<open>\<^verbatim>\<open>UserPersona(**cached)\<close>, in the same way; the class has no constraint to validate.\<close>

fun UserPersona_load :: "cache_value option \<Rightarrow> error + UserPersona" where
  "UserPersona_load (Some (VPersona p)) = Inr p"
| "UserPersona_load (Some (VDecision d)) = Inl ValidationError"
| "UserPersona_load (Some (VFloat x)) = Inl TypeError"
| "UserPersona_load (Some (VInt n)) = Inl TypeError"
| "UserPersona_load None = Inl TypeError"

subsection \<open>The engine and its surroundings\<close>

text \<open>An entry of the personas file; \<^verbatim>\<open>get_persona\<close> reads each key with a default.\<close>

record PersonaData =
  pd_persona :: "PersonaType option"
  pd_lifetime_purchases :: "int option"
  pd_last_reward_ts :: "int option"

record RewardDecisionEngine =
  policy_config :: PolicyConfig
  settings :: Settings
  personas_data :: "string \<rightharpoonup> PersonaData"
  py_hash :: "string \<Rightarrow> int"

record Env =
  env_now :: real
  env_today :: string
  env_uuid :: string

subsection \<open>persona.py\<close>

definition get_persona ::
  "RewardDecisionEngine \<Rightarrow> Env \<Rightarrow> string \<Rightarrow> InMemoryCache \<Rightarrow> (error + UserPersona) \<times> InMemoryCache" where
  "get_persona eng env uid c =
     (let cache_key = ''persona:'' @ uid;
          (cached, c1) = cache_get (env_now env) cache_key c
      in if truthy cached then (UserPersona_load cached, c1)
         else
           (let p = (case personas_data eng uid of
                       Some persona_data \<Rightarrow>
                         \<lparr>up_user_id = uid,
                          persona = (case pd_persona persona_data of Some t \<Rightarrow> t | None \<Rightarrow> NEW),
                          lifetime_purchases =
                            (case pd_lifetime_purchases persona_data of Some n \<Rightarrow> n | None \<Rightarrow> 0),
                          last_reward_ts = pd_last_reward_ts persona_data\<rparr>
                     | None \<Rightarrow>
                         \<lparr>up_user_id = uid, persona = NEW, lifetime_purchases = 0,
                          last_reward_ts = None\<rparr>)
            in (Inr p, cache_set (env_now env) cache_key (VPersona p)
                         (Some (persona_cache_ttl (settings eng))) c1)))"

definition infer_persona :: "int \<Rightarrow> PersonaType" where
  "infer_persona n = (if n = 0 then NEW else if n \<ge> 10 then POWER else RETURNING)"

text \<open>
  \<^verbatim>\<open>update_persona\<close> overwrites the entry of the personas file, which belongs to the
  engine, and the cache entry.
\<close>

definition update_persona ::
  "RewardDecisionEngine \<Rightarrow> Env \<Rightarrow> string \<Rightarrow> UserPersona \<Rightarrow> InMemoryCache
     \<Rightarrow> RewardDecisionEngine \<times> InMemoryCache" where
  "update_persona eng env uid p c =
     (eng\<lparr>personas_data := (personas_data eng)(uid \<mapsto>
              \<lparr>pd_persona = Some (persona p),
               pd_lifetime_purchases = Some (lifetime_purchases p),
               pd_last_reward_ts = last_reward_ts p\<rparr>)\<rparr>,
      cache_set (env_now env) (''persona:'' @ uid) (VPersona p)
        (Some (persona_cache_ttl (settings eng))) c)"

subsection \<open>reward\_logic.py\<close>

definition build_idempotency_key :: "RewardDecisionRequest \<Rightarrow> string" where
  "build_idempotency_key r = ''idem:'' @ txn_id r @ '':'' @ user_id r @ '':'' @ merchant_id r"

definition calculate_xp :: "PolicyConfig \<Rightarrow> real \<Rightarrow> string \<Rightarrow> int" where
  "calculate_xp pol amt persona_name =
     (let xp_per_rupee = get_xp_per_rupee pol;
          max_xp = get_max_xp_per_txn pol;
          multiplier = get_persona_multiplier pol persona_name;
          calculated_xp = py_int (amt * xp_per_rupee * multiplier)
      in min calculated_xp max_xp)"

text \<open>\<^verbatim>\<open>cached or 0.0\<close>: the cached value when it is true, the float zero otherwise.\<close>

definition get_daily_cac_spend :: "Env \<Rightarrow> string \<Rightarrow> InMemoryCache \<Rightarrow> cache_value \<times> InMemoryCache" where
  "get_daily_cac_spend env uid c =
     (let cache_key = ''cac:'' @ uid @ '':'' @ env_today env;
          (cached, c1) = cache_get (env_now env) cache_key c
      in (case cached of Some v \<Rightarrow> if truthy cached then v else VFloat 0 | None \<Rightarrow> VFloat 0, c1))"

definition update_daily_cac_spend ::
  "Env \<Rightarrow> string \<Rightarrow> real \<Rightarrow> InMemoryCache \<Rightarrow> (error + unit) \<times> InMemoryCache" where
  "update_daily_cac_spend env uid amt c =
     (let cache_key = ''cac:'' @ uid @ '':'' @ env_today env;
          (current, c1) = get_daily_cac_spend env uid c
      in case as_number current of
           Inl e \<Rightarrow> (Inl e, c1)
         | Inr s \<Rightarrow> (Inr (), cache_set (env_now env) cache_key (VFloat (s + amt)) (Some 86400) c1))"

definition is_in_cooldown ::
  "RewardDecisionEngine \<Rightarrow> Env \<Rightarrow> string \<Rightarrow> InMemoryCache \<Rightarrow> (error + bool) \<times> InMemoryCache" where
  "is_in_cooldown eng env uid c =
     (let cache_key = ''last_reward:'' @ uid;
          (last_reward, c1) = cache_get (env_now env) cache_key c
      in case last_reward of
           None \<Rightarrow> (Inr False, c1)
         | Some v \<Rightarrow>
             (let cooldown_hours = get_cooldown_hours (policy_config eng);
                  cooldown_seconds = cooldown_hours * 3600;
                  current_ts = py_int (env_now env)
              in case as_number v of
                   Inl e \<Rightarrow> (Inl e, c1)
                 | Inr t \<Rightarrow> (Inr (real_of_int current_ts - t < real_of_int cooldown_seconds), c1)))"

text \<open>\<^verbatim>\<open>ts or int(datetime.now().timestamp())\<close>: a missing and a zero \<^verbatim>\<open>ts\<close> are both false.\<close>

definition update_last_reward ::
  "RewardDecisionEngine \<Rightarrow> Env \<Rightarrow> string \<Rightarrow> int option \<Rightarrow> InMemoryCache \<Rightarrow> InMemoryCache" where
  "update_last_reward eng env uid t c =
     (let cache_key = ''last_reward:'' @ uid;
          timestamp = (case t of
                         Some n \<Rightarrow> if n \<noteq> 0 then n else py_int (env_now env)
                       | None \<Rightarrow> py_int (env_now env))
      in cache_set (env_now env) cache_key (VInt timestamp)
           (Some (last_reward_cache_ttl (settings eng))) c)"

text \<open>
  The loop of \<^verbatim>\<open>_determine_reward\<close> over \<^verbatim>\<open>weights.items()\<close>, with the running
  \<^verbatim>\<open>cumulative\<close> as an argument; the equation for the empty list is the \<^verbatim>\<open>return\<close>
  after the loop.
\<close>

fun select_reward :: "int \<Rightarrow> real \<Rightarrow> int \<Rightarrow> (string \<times> real) list \<Rightarrow> RewardType \<times> int" where
  "select_reward seed amt cumulative [] = (XP, 0)"
| "select_reward seed amt cumulative ((rtype, weight) # rest) =
     (if seed < cumulative + py_int (weight * 100)
      then (if rtype = ''CHECKOUT'' then (CHECKOUT, py_int (amt * 0.05))
            else if rtype = ''GOLD'' then (GOLD, py_int (amt * 0.02))
            else (XP, 0))
      else select_reward seed amt (cumulative + py_int (weight * 100)) rest)"

text \<open>The statements of \<^verbatim>\<open>_determine_reward\<close> that follow the daily cap check.\<close>

definition determine_reward_policy ::
  "RewardDecisionEngine \<Rightarrow> Env \<Rightarrow> string \<Rightarrow> real \<Rightarrow> InMemoryCache
     \<Rightarrow> (error + RewardType \<times> int) \<times> InMemoryCache" where
  "determine_reward_policy eng env uid amt c =
     (if prefer_xp_mode (policy_config eng) then (Inr (XP, 0), c)
      else if cooldown_enabled (policy_config eng) then
        (case is_in_cooldown eng env uid c of
           (Inl e, c1) \<Rightarrow> (Inl e, c1)
         | (Inr in_cooldown, c1) \<Rightarrow>
             if in_cooldown then (Inr (XP, 0), c1)
             else (Inr (select_reward (py_hash eng uid mod 100) amt 0
                          (get_reward_type_weights (policy_config eng))), c1))
      else (Inr (select_reward (py_hash eng uid mod 100) amt 0
                   (get_reward_type_weights (policy_config eng))), c))"

definition determine_reward ::
  "RewardDecisionEngine \<Rightarrow> Env \<Rightarrow> string \<Rightarrow> string \<Rightarrow> real \<Rightarrow> int \<Rightarrow> InMemoryCache
     \<Rightarrow> (error + RewardType \<times> int) \<times> InMemoryCache" where
  "determine_reward eng env uid persona_name amt xp_pts c =
     (let daily_cap = get_daily_cac_cap (policy_config eng) persona_name
      in if daily_cap > 0 then
           (case get_daily_cac_spend env uid c of
              (daily_spend, c1) \<Rightarrow>
                (case as_number daily_spend of
                   Inl e \<Rightarrow> (Inl e, c1)
                 | Inr spend \<Rightarrow>
                     if spend + amt > real_of_int daily_cap then
                       (if get_cac_fallback_to_xp (policy_config eng) then (Inr (XP, 0), c1)
                        else (Inr (XP, 0), c1))
                     else determine_reward_policy eng env uid amt c1))
         else determine_reward_policy eng env uid amt c)"

definition get_reason_codes :: "PolicyConfig \<Rightarrow> string \<Rightarrow> RewardType \<Rightarrow> string list" where
  "get_reason_codes pol persona_name rt =
     (if persona_name = ''NEW'' then [''NEW_USER'']
      else if persona_name = ''RETURNING'' then [''RETURNING_USER'']
      else if persona_name = ''POWER'' then [''POWER_USER'']
      else [])
     @ (case rt of XP \<Rightarrow> [''XP_MODE_ENABLED'']
                | CHECKOUT \<Rightarrow> [''CHECKOUT_REWARD'']
                | GOLD \<Rightarrow> [''GOLD_REWARD''])
     @ (if prefer_xp_mode pol then [''PREFER_XP_MODE''] else [])
     @ (if cooldown_enabled pol then [''COOLDOWN_POLICY_ENABLED''] else [])"

text \<open>
  \<^verbatim>\<open>decide\<close>. The result is paired with the cache the call leaves behind; an exception
  leaves the writes made before it.
\<close>

definition decide ::
  "RewardDecisionEngine \<Rightarrow> Env \<Rightarrow> RewardDecisionRequest \<Rightarrow> InMemoryCache
     \<Rightarrow> (error + RewardDecisionResponse) \<times> InMemoryCache" where
  "decide eng env r c =
     (let (cached_response, c0) =
            (if enable_idempotency (settings eng)
             then cache_get (env_now env) (build_idempotency_key r) c
             else (None, c))
      in if truthy cached_response then (RewardDecisionResponse_load cached_response, c0)
         else
           (case get_persona eng env (user_id r) c0 of
              (Inl e, c1) \<Rightarrow> (Inl e, c1)
            | (Inr p, c1) \<Rightarrow>
                (let persona_name = PersonaType_value (persona p);
                     xp_pts = calculate_xp (policy_config eng) (amount r) persona_name
                 in case determine_reward eng env (user_id r) persona_name (amount r) xp_pts c1 of
                      (Inl e, c2) \<Rightarrow> (Inl e, c2)
                    | (Inr (rt, rv), c2) \<Rightarrow>
                        (case RewardDecisionResponse_new
                                \<lparr>decision_id = env_uuid env,
                                 policy_version = version (policy_config eng),
                                 reward_type = rt,
                                 reward_value = rv,
                                 xp = xp_pts,
                                 reason_codes = get_reason_codes (policy_config eng) persona_name rt,
                                 meta = \<lparr>meta_persona = persona_name,
                                         meta_multiplier =
                                           get_persona_multiplier (policy_config eng) persona_name,
                                         meta_txn_id = txn_id r,
                                         meta_user_id = user_id r,
                                         meta_merchant_id = merchant_id r\<rparr>\<rparr> of
                           Inl e \<Rightarrow> (Inl e, c2)
                         | Inr decision \<Rightarrow>
                             (let c3 = (if enable_idempotency (settings eng)
                                        then cache_set (env_now env) (build_idempotency_key r)
                                               (VDecision decision)
                                               (Some (idempotency_ttl (settings eng))) c2
                                        else c2)
                              in (Inr decision,
                                  update_last_reward eng env (user_id r) (ts r) c3))))))"

text \<open>
  The inbound operation: the transport layer builds the request object, which validates
  it, and hands it to \<^verbatim>\<open>decide\<close>.
\<close>

definition decide_request ::
  "RewardDecisionEngine \<Rightarrow> Env \<Rightarrow> string \<Rightarrow> string \<Rightarrow> string \<Rightarrow> real \<Rightarrow> string \<Rightarrow> int option
     \<Rightarrow> InMemoryCache \<Rightarrow> (error + RewardDecisionResponse) \<times> InMemoryCache" where
  "decide_request eng env t u m a ty s c =
     (case RewardDecisionRequest_new t u m a ty s of
        Inl e \<Rightarrow> (Inl e, c)
      | Inr r \<Rightarrow> decide eng env r c)"

subsection \<open>Notions used in the statements\<close>

text \<open>
  The running total of the selection loop after the entry at position \<open>i\<close>: the sum of
  \<^verbatim>\<open>int(weight * 100)\<close> over the entries up to and including it.
\<close>

definition cumulative_weight :: "(string \<times> real) list \<Rightarrow> nat \<Rightarrow> int" where
  "cumulative_weight ws i =
     sum_list (map (\<lambda>(rtype, weight). py_int (weight * 100)) (take (Suc i) ws))"



text \<open>
  The rules that come before the selection. The daily cap rule applies when the cap of
  the persona is positive and the recorded spend plus the amount exceeds it; the cooldown
  rule applies when the feature is on and the user is within the cooldown.
\<close>

definition cap_exceeded ::
  "RewardDecisionEngine \<Rightarrow> Env \<Rightarrow> string \<Rightarrow> string \<Rightarrow> real \<Rightarrow> InMemoryCache \<Rightarrow> bool" where
  "cap_exceeded eng env uid pn amt c =
     (0 < get_daily_cac_cap (policy_config eng) pn \<and>
      (case as_number (fst (get_daily_cac_spend env uid c)) of
         Inr spend \<Rightarrow> spend + amt > real_of_int (get_daily_cac_cap (policy_config eng) pn)
       | Inl e \<Rightarrow> False))"

definition cooldown_applies :: "RewardDecisionEngine \<Rightarrow> Env \<Rightarrow> string \<Rightarrow> InMemoryCache \<Rightarrow> bool" where
  "cooldown_applies eng env uid c =
     (cooldown_enabled (policy_config eng) \<and> fst (is_in_cooldown eng env uid c) = Inr True)"

text \<open>
  A call of \<^verbatim>\<open>decide\<close> is a replay when idempotency is on and the lookup of the
  idempotency key returns a true value; otherwise it is a fresh computation.
\<close>

definition idempotency_hit ::
  "RewardDecisionEngine \<Rightarrow> Env \<Rightarrow> RewardDecisionRequest \<Rightarrow> InMemoryCache \<Rightarrow> bool" where
  "idempotency_hit eng env r c =
     (enable_idempotency (settings eng) \<and>
      truthy (fst (cache_get (env_now env) (build_idempotency_key r) c)))"

text \<open>
  A run is affected by a rule when the prefer-XP mode is on, the cooldown applies, or the
  daily cap of the resolved persona is exceeded.
\<close>

definition rule_interferes ::
  "RewardDecisionEngine \<Rightarrow> Env \<Rightarrow> RewardDecisionRequest \<Rightarrow> InMemoryCache \<Rightarrow> bool" where
  "rule_interferes eng env r c =
     (prefer_xp_mode (policy_config eng) \<or>
      cooldown_applies eng env (user_id r) c \<or>
      (case fst (get_persona eng env (user_id r) c) of
         Inr p \<Rightarrow> cap_exceeded eng env (user_id r) (PersonaType_value (persona p)) (amount r) c
       | Inl e \<Rightarrow> False))"

text \<open>
  What a read may do to an entry: leave it, or drop it when it has expired.
\<close>

definition entry_kept ::
  "real \<Rightarrow> (cache_value \<times> real option) option \<Rightarrow> (cache_value \<times> real option) option \<Rightarrow> bool" where
  "entry_kept now old new =
     (new = old \<or>
      (new = None \<and> (case old of Some (v, Some e) \<Rightarrow> now > e | Some (v, None) \<Rightarrow> False | None \<Rightarrow> False)))"

text \<open>A decision of type \<^verbatim>\<open>XP\<close> carries no monetary value.\<close>

definition xp_pays_nothing :: "RewardDecisionResponse \<Rightarrow> bool" where
  "xp_pays_nothing d = (reward_type d = XP \<longrightarrow> reward_value d = 0)"

text \<open>Every decision stored in the cache has that property.\<close>

definition cache_ok :: "InMemoryCache \<Rightarrow> bool" where
  "cache_ok c = (\<forall>k d e. c k = Some (VDecision d, e) \<longrightarrow> xp_pays_nothing d)"

text \<open>
  The caches the service can reach: it starts empty, and the operations that write it are
  \<^verbatim>\<open>decide\<close>, \<^verbatim>\<open>_update_daily_cac_spend\<close> and \<^verbatim>\<open>update_persona\<close>, called with any
  arguments, at any time and under any policy.
\<close>

inductive reachable :: "InMemoryCache \<Rightarrow> bool" where
  start: "reachable Map.empty"
| after_decide: "reachable c \<Longrightarrow> reachable (snd (decide eng env r c))"
| after_spend: "reachable c \<Longrightarrow> reachable (snd (update_daily_cac_spend env uid amt c))"
| after_persona: "reachable c \<Longrightarrow> reachable (snd (update_persona eng env uid p c))"

subsection \<open>Sample inputs\<close>

text \<open>
  Concrete inputs for the instances below: the settings' defaults, an engine on the
  built-in policy with an empty personas file and a constant hash, a clock reading, a
  request, and a cache that holds a daily spend for the user \<^verbatim>\<open>u1\<close>.
\<close>

definition default_settings :: Settings where
  "default_settings =
     \<lparr>enable_idempotency = True, idempotency_ttl = 86400, persona_cache_ttl = 3600,
      last_reward_cache_ttl = 86400\<rparr>"

definition sample_engine :: "int \<Rightarrow> RewardDecisionEngine" where
  "sample_engine h =
     \<lparr>policy_config = default_config, settings = default_settings,
      personas_data = Map.empty, py_hash = (\<lambda>_. h)\<rparr>"

definition sample_env :: "real \<Rightarrow> string \<Rightarrow> Env" where
  "sample_env t u = \<lparr>env_now = t, env_today = ''2024-01-20'', env_uuid = u\<rparr>"

definition sample_request :: "real \<Rightarrow> RewardDecisionRequest" where
  "sample_request a =
     \<lparr>txn_id = ''t1'', user_id = ''u1'', merchant_id = ''m1'', amount = a,
      txn_type = ''purchase'', ts = None\<rparr>"

definition spent_cache :: "real \<Rightarrow> InMemoryCache" where
  "spent_cache x = Map.empty(''cac:u1:2024-01-20'' \<mapsto> (VFloat x, None))"


text \<open>
  The decision \<^verbatim>\<open>decide\<close> builds for \<open>sample_request\<close> and a new user, the persona
  of a user absent from the personas file, and an engine whose personas file lists the
  user \<^verbatim>\<open>u1\<close> as \<^verbatim>\<open>RETURNING\<close>.
\<close>

definition sample_decision :: "string \<Rightarrow> RewardType \<Rightarrow> int \<Rightarrow> int \<Rightarrow> RewardDecisionResponse" where
  "sample_decision did rt rv x =
     \<lparr>decision_id = did, policy_version = ''v1.0.0'', reward_type = rt, reward_value = rv,
      xp = x,
      reason_codes = [''NEW_USER'',
                      case rt of XP \<Rightarrow> ''XP_MODE_ENABLED'' | CHECKOUT \<Rightarrow> ''CHECKOUT_REWARD''
                               | GOLD \<Rightarrow> ''GOLD_REWARD''],
      meta = \<lparr>meta_persona = ''NEW'', meta_multiplier = 1, meta_txn_id = ''t1'',
              meta_user_id = ''u1'', meta_merchant_id = ''m1''\<rparr>\<rparr>"

definition new_persona :: "string \<Rightarrow> UserPersona" where
  "new_persona uid = \<lparr>up_user_id = uid, persona = NEW, lifetime_purchases = 0, last_reward_ts = None\<rparr>"

definition returning_engine :: RewardDecisionEngine where
  "returning_engine =
     (sample_engine 75)\<lparr>personas_data :=
        [''u1'' \<mapsto> \<lparr>pd_persona = Some RETURNING, pd_lifetime_purchases = Some 3,
                      pd_last_reward_ts = None\<rparr>]\<rparr>"


section \<open>Properties\<close>

lemmas sample_defs = default_settings_def sample_engine_def sample_env_def sample_request_def
  spent_cache_def default_config_def

lemmas config_defs = version_def get_reward_type_weights_def get_xp_per_rupee_def
  get_max_xp_per_txn_def get_persona_multiplier_def get_daily_cac_cap_def
  get_cac_fallback_to_xp_def prefer_xp_mode_def cooldown_enabled_def get_cooldown_hours_def

lemmas engine_defs = cache_get_def cache_set_def get_persona_def build_idempotency_key_def
  calculate_xp_def get_daily_cac_spend_def update_daily_cac_spend_def is_in_cooldown_def
  update_last_reward_def determine_reward_policy_def determine_reward_def
  get_reason_codes_def decide_def decide_request_def RewardDecisionResponse_new_def
  RewardDecisionRequest_new_def py_int_def Let_def

lemmas notion_defs = idempotency_hit_def rule_interferes_def cap_exceeded_def cooldown_applies_def
  sample_decision_def new_persona_def returning_engine_def

subsection \<open>The fallback flag of the daily cap\<close>

lemma cap_ignores_fallback [simp]:
  "get_daily_cac_cap (p\<lparr>cfg_fallback_to_xp := flag\<rparr>) pn = get_daily_cac_cap p pn"
  by (simp add: get_daily_cac_cap_def)

text \<open>
  Claim C5. When the daily cap check fires (the cap of the persona is positive and the
  spend read from the cache plus the amount exceeds it), \<^verbatim>\<open>_determine_reward\<close> returns
  \<open>(XP, 0)\<close> whatever the policy says under \<^verbatim>\<open>cac.fallback_to_xp\<close>: true, false or
  nothing. The flag is set to an arbitrary \<open>flag\<close> in the policy of the engine and the
  result does not mention it.
\<close>

theorem C5_fallback_flag_no_effect:
  assumes "0 < get_daily_cac_cap (policy_config eng) pn"
    and "get_daily_cac_spend env uid c = (v, c1)"
    and "as_number v = Inr spend"
    and "spend + amt > real_of_int (get_daily_cac_cap (policy_config eng) pn)"
  shows "determine_reward (eng\<lparr>policy_config := (policy_config eng)\<lparr>cfg_fallback_to_xp := flag\<rparr>\<rparr>)
           env uid pn amt xp_pts c = (Inr (XP, 0), c1)"
  using assms by (simp add: determine_reward_def)

theorem C5_fallback_flag_no_effect_witness:
  "determine_reward
     ((sample_engine 75)\<lparr>policy_config :=
        (policy_config (sample_engine 75))\<lparr>cfg_fallback_to_xp := Some False\<rparr>\<rparr>)
     (sample_env 1000 ''d1'') ''u1'' ''RETURNING'' 200 30 (spent_cache 900)
     = (Inr (XP, 0), spent_cache 900)
   \<and> determine_reward
     ((sample_engine 75)\<lparr>policy_config :=
        (policy_config (sample_engine 75))\<lparr>cfg_fallback_to_xp := Some True\<rparr>\<rparr>)
     (sample_env 1000 ''d1'') ''u1'' ''RETURNING'' 200 30 (spent_cache 900)
     = (Inr (XP, 0), spent_cache 900)"
proof -
  have cap: "0 < get_daily_cac_cap (policy_config (sample_engine 75)) ''RETURNING''"
    by (simp add: sample_defs config_defs)
  have spend: "get_daily_cac_spend (sample_env 1000 ''d1'') ''u1'' (spent_cache 900)
                 = (VFloat 900, spent_cache 900)"
    by (simp add: sample_defs engine_defs)
  have num: "as_number (VFloat 900) = Inr 900"
    by simp
  have over: "900 + 200 > real_of_int (get_daily_cac_cap (policy_config (sample_engine 75)) ''RETURNING'')"
    by (simp add: sample_defs config_defs)
  show ?thesis
    using C5_fallback_flag_no_effect [OF cap spend num over, of "Some False" 30]
          C5_fallback_flag_no_effect [OF cap spend num over, of "Some True" 30]
    by simp
qed

subsection \<open>Validation of the amount\<close>

text \<open>
  Claim C8. A request with a non-positive amount is refused with a \<^verbatim>\<open>ValidationError\<close>
  when the request object is built: the inbound operation returns the error, no decision,
  and leaves the cache as it was. A request with a positive amount passes validation
  unchanged and reaches \<^verbatim>\<open>decide\<close>.
\<close>

theorem C8_amount_validated:
  "(a \<le> 0 \<longrightarrow>
      RewardDecisionRequest_new t u m a ty s = Inl ValidationError \<and>
      decide_request eng env t u m a ty s c = (Inl ValidationError, c))
   \<and> (a > 0 \<longrightarrow>
      RewardDecisionRequest_new t u m a ty s =
        Inr \<lparr>txn_id = t, user_id = u, merchant_id = m, amount = a, txn_type = ty, ts = s\<rparr> \<and>
      decide_request eng env t u m a ty s c =
        decide eng env
          \<lparr>txn_id = t, user_id = u, merchant_id = m, amount = a, txn_type = ty, ts = s\<rparr> c)"
  by (simp add: RewardDecisionRequest_new_def decide_request_def)

theorem C8_amount_validated_witness:
  "decide_request (sample_engine 75) (sample_env 1000 ''d1'')
      ''t1'' ''u1'' ''m1'' 0 ''purchase'' None Map.empty = (Inl ValidationError, Map.empty)
   \<and> decide_request (sample_engine 75) (sample_env 1000 ''d1'')
      ''t1'' ''u1'' ''m1'' (-5) ''purchase'' None Map.empty = (Inl ValidationError, Map.empty)
   \<and> RewardDecisionRequest_new ''t1'' ''u1'' ''m1'' 100 ''purchase'' None
      = Inr (sample_request 100)"
  using
    C8_amount_validated [of 0 "''t1''" "''u1''" "''m1''" "''purchase''" None
      "sample_engine 75" "sample_env 1000 ''d1''" Map.empty]
    C8_amount_validated [of "-5" "''t1''" "''u1''" "''m1''" "''purchase''" None
      "sample_engine 75" "sample_env 1000 ''d1''" Map.empty]
    C8_amount_validated [of 100 "''t1''" "''u1''" "''m1''" "''purchase''" None
      "sample_engine 75" "sample_env 1000 ''d1''" Map.empty]
  by (simp add: sample_request_def)

subsection \<open>The weighted selection\<close>

lemma cumulative_weight_Cons_0 [simp]:
  "cumulative_weight ((r, w) # rest) 0 = py_int (w * 100)"
  by (simp add: cumulative_weight_def)

lemma cumulative_weight_Cons_Suc [simp]:
  "cumulative_weight ((r, w) # rest) (Suc i) = py_int (w * 100) + cumulative_weight rest i"
  by (simp add: cumulative_weight_def)





lemma cache_get_other: "cache_get now k c = (v, c1) \<Longrightarrow> k' \<noteq> k \<Longrightarrow> c1 k' = c k'"
  by (auto simp: cache_get_def split: option.splits prod.splits if_splits)

lemma cache_get_fst_cong: "c1 k = c k \<Longrightarrow> fst (cache_get now k c1) = fst (cache_get now k c)"
  by (auto simp: cache_get_def split: option.splits prod.splits if_splits)

lemma get_daily_cac_spend_other:
  "get_daily_cac_spend env uid c = (v, c1) \<Longrightarrow> k \<noteq> ''cac:'' @ uid @ '':'' @ env_today env \<Longrightarrow> c1 k = c k"
  by (auto simp: get_daily_cac_spend_def Let_def split: prod.splits dest: cache_get_other)

lemma is_in_cooldown_fst_cong:
  assumes "c1 (''last_reward:'' @ uid) = c (''last_reward:'' @ uid)"
  shows "fst (is_in_cooldown eng env uid c1) = fst (is_in_cooldown eng env uid c)"
proof -
  have "fst (cache_get (env_now env) (''last_reward:'' @ uid) c1)
        = fst (cache_get (env_now env) (''last_reward:'' @ uid) c)"
    using assms by (rule cache_get_fst_cong)
  then show ?thesis
    by (auto simp: is_in_cooldown_def Let_def split: prod.splits option.splits sum.splits)
qed

lemma determine_reward_policy_select:
  assumes "determine_reward_policy eng env uid amt c = (Inr res, c')"
    and "\<not> prefer_xp_mode (policy_config eng)"
    and "\<not> cooldown_applies eng env uid c"
  shows "res = select_reward (py_hash eng uid mod 100) amt 0 (get_reward_type_weights (policy_config eng))"
  using assms
  by (auto simp: determine_reward_policy_def cooldown_applies_def split: if_splits prod.splits sum.splits)

lemma determine_reward_select:
  assumes "determine_reward eng env uid pn amt xp_pts c = (Inr res, c')"
    and "\<not> cap_exceeded eng env uid pn amt c"
    and "\<not> prefer_xp_mode (policy_config eng)"
    and "\<not> cooldown_applies eng env uid c"
  shows "res = select_reward (py_hash eng uid mod 100) amt 0 (get_reward_type_weights (policy_config eng))"
proof (cases "0 < get_daily_cac_cap (policy_config eng) pn")
  case False
  with assms(1) have "determine_reward_policy eng env uid amt c = (Inr res, c')"
    by (simp add: determine_reward_def)
  then show ?thesis using assms(3,4) by (rule determine_reward_policy_select)
next
  case True
  obtain v c1 where sp: "get_daily_cac_spend env uid c = (v, c1)" by (cases "get_daily_cac_spend env uid c")
  from assms(1) True sp obtain spend where num: "as_number v = Inr spend"
    by (cases "as_number v") (auto simp: determine_reward_def)
  from assms(2) True sp num have le: "\<not> spend + amt > real_of_int (get_daily_cac_cap (policy_config eng) pn)"
    by (simp add: cap_exceeded_def)
  from assms(1) True sp num le have pol: "determine_reward_policy eng env uid amt c1 = (Inr res, c')"
    by (simp add: determine_reward_def)
  have "c1 (''last_reward:'' @ uid) = c (''last_reward:'' @ uid)"
    using sp by (rule get_daily_cac_spend_other) simp
  then have "fst (is_in_cooldown eng env uid c1) = fst (is_in_cooldown eng env uid c)"
    by (rule is_in_cooldown_fst_cong)
  with assms(4) have "\<not> cooldown_applies eng env uid c1"
    by (simp add: cooldown_applies_def)
  with pol assms(3) show ?thesis by (rule determine_reward_policy_select)
qed





subsection \<open>A new user under the default policy\<close>

text \<open>
  Claim C1 at a concrete input. Under the default policy a user absent from the personas
  file resolves to \<^verbatim>\<open>NEW\<close>, whose daily cap is 0. The cap check is guarded by
  \<^verbatim>\<open>daily_cap > 0\<close>, so it is skipped, and a user whose hash gives the seed 75 is paid a
  \<^verbatim>\<open>CHECKOUT\<close> reward of 5 on an amount of 100.
\<close>

theorem C1_new_user_gets_checkout:
  "fst (get_persona (sample_engine 75) (sample_env 1000 ''d1'') (user_id (sample_request 100)) Map.empty)
     = Inr \<lparr>up_user_id = ''u1'', persona = NEW, lifetime_purchases = 0, last_reward_ts = None\<rparr>
   \<and> get_daily_cac_cap (policy_config (sample_engine 75)) (PersonaType_value NEW) = 0
   \<and> fst (decide (sample_engine 75) (sample_env 1000 ''d1'') (sample_request 100) Map.empty)
     = Inr \<lparr>decision_id = ''d1'', policy_version = ''v1.0.0'', reward_type = CHECKOUT,
            reward_value = 5, xp = 10, reason_codes = [''NEW_USER'', ''CHECKOUT_REWARD''],
            meta = \<lparr>meta_persona = ''NEW'', meta_multiplier = 1, meta_txn_id = ''t1'',
                    meta_user_id = ''u1'', meta_merchant_id = ''m1''\<rparr>\<rparr>"
  by (simp add: sample_defs config_defs engine_defs)

subsection \<open>What the operations do to the cache\<close>

lemma entry_kept_refl [simp]: "entry_kept now x x"
  by (simp add: entry_kept_def)

lemma cache_get_kept: "cache_get now k c = (v, c1) \<Longrightarrow> entry_kept now (c k') (c1 k')"
  by (auto simp: cache_get_def entry_kept_def split: option.splits prod.splits if_splits)

lemma cache_set_other: "k' \<noteq> k \<Longrightarrow> cache_set now k v ttl c k' = c k'"
  by (simp add: cache_set_def)

lemma get_persona_other:
  assumes "get_persona eng env uid c = (res, c1)" and "k \<noteq> ''persona:'' @ uid"
  shows "c1 k = c k"
proof -
  obtain cached c0 where g: "cache_get (env_now env) (''persona:'' @ uid) c = (cached, c0)"
    by (cases "cache_get (env_now env) (''persona:'' @ uid) c")
  have k0: "c0 k = c k" using g assms(2) by (rule cache_get_other)
  show ?thesis
  proof (cases "truthy cached")
    case True
    with assms(1) g have "c1 = c0" by (simp add: get_persona_def)
    with k0 show ?thesis by simp
  next
    case False
    with assms(1) g obtain p where
      "c1 = cache_set (env_now env) (''persona:'' @ uid) (VPersona p) (Some (persona_cache_ttl (settings eng))) c0"
      by (auto simp: get_persona_def Let_def)
    with k0 assms(2) show ?thesis by (simp add: cache_set_other)
  qed
qed

lemma get_persona_fst_cong:
  assumes "c1 (''persona:'' @ uid) = c (''persona:'' @ uid)"
  shows "fst (get_persona eng env uid c1) = fst (get_persona eng env uid c)"
proof -
  have "fst (cache_get (env_now env) (''persona:'' @ uid) c1)
        = fst (cache_get (env_now env) (''persona:'' @ uid) c)"
    using assms by (rule cache_get_fst_cong [where ?c1.0 = c1 and c = c and k = "''persona:'' @ uid"])
  then show ?thesis
    by (auto simp: get_persona_def Let_def split: prod.splits)
qed

lemma get_daily_cac_spend_kept:
  "get_daily_cac_spend env uid c = (v, c1) \<Longrightarrow> entry_kept (env_now env) (c k) (c1 k)"
  by (auto simp: get_daily_cac_spend_def Let_def split: prod.splits dest: cache_get_kept)

lemma get_daily_cac_spend_fst_cong:
  assumes "c1 (''cac:'' @ uid @ '':'' @ env_today env) = c (''cac:'' @ uid @ '':'' @ env_today env)"
  shows "fst (get_daily_cac_spend env uid c1) = fst (get_daily_cac_spend env uid c)"
proof -
  have "fst (cache_get (env_now env) (''cac:'' @ uid @ '':'' @ env_today env) c1)
        = fst (cache_get (env_now env) (''cac:'' @ uid @ '':'' @ env_today env) c)"
    using assms by (rule cache_get_fst_cong [where ?c1.0 = c1 and c = c and k = "''cac:'' @ uid @ '':'' @ env_today env"])
  then show ?thesis
    by (auto simp: get_daily_cac_spend_def Let_def split: prod.splits)
qed

lemma is_in_cooldown_kept:
  "is_in_cooldown eng env uid c = (b, c1) \<Longrightarrow> entry_kept (env_now env) (c k) (c1 k)"
  by (auto simp: is_in_cooldown_def Let_def split: prod.splits option.splits sum.splits
           dest: cache_get_kept)

lemma is_in_cooldown_other:
  "is_in_cooldown eng env uid c = (b, c1) \<Longrightarrow> k \<noteq> ''last_reward:'' @ uid \<Longrightarrow> c1 k = c k"
  by (auto simp: is_in_cooldown_def Let_def split: prod.splits option.splits sum.splits
           dest: cache_get_other)

lemma entry_kept_trans:
  "entry_kept now x y \<Longrightarrow> entry_kept now y z \<Longrightarrow> entry_kept now x z"
  by (auto simp: entry_kept_def split: option.splits)

lemma determine_reward_policy_cache:
  assumes "determine_reward_policy eng env uid amt c = (res, c1)"
  shows "c1 = c \<or> (\<exists>b. is_in_cooldown eng env uid c = (b, c1))"
proof (cases "prefer_xp_mode (policy_config eng)")
  case True
  with assms show ?thesis by (simp add: determine_reward_policy_def)
next
  case noxp: False
  show ?thesis
  proof (cases "cooldown_enabled (policy_config eng)")
    case False
    with noxp assms show ?thesis by (simp add: determine_reward_policy_def)
  next
    case True
    obtain b c' where cd: "is_in_cooldown eng env uid c = (b, c')"
      by (cases "is_in_cooldown eng env uid c")
    with noxp True assms have "c1 = c'"
      by (cases b) (simp_all add: determine_reward_policy_def split: if_splits)
    with cd show ?thesis by blast
  qed
qed

lemma determine_reward_policy_kept:
  assumes "determine_reward_policy eng env uid amt c = (res, c1)"
  shows "entry_kept (env_now env) (c k) (c1 k)"
  using determine_reward_policy_cache [OF assms] by (auto dest: is_in_cooldown_kept)

lemma determine_reward_policy_other:
  assumes "determine_reward_policy eng env uid amt c = (res, c1)" and "k \<noteq> ''last_reward:'' @ uid"
  shows "c1 k = c k"
  using determine_reward_policy_cache [OF assms(1)] assms(2) by (auto dest: is_in_cooldown_other)

lemma determine_reward_cache:
  assumes "determine_reward eng env uid pn amt xp_pts c = (res, c2)"
  shows "determine_reward_policy eng env uid amt c = (res, c2) \<or>
         (\<exists>v c1. get_daily_cac_spend env uid c = (v, c1) \<and>
                  (c2 = c1 \<or> determine_reward_policy eng env uid amt c1 = (res, c2)))"
proof (cases "0 < get_daily_cac_cap (policy_config eng) pn")
  case False
  with assms show ?thesis by (simp add: determine_reward_def)
next
  case True
  obtain v c1 where sp: "get_daily_cac_spend env uid c = (v, c1)"
    by (cases "get_daily_cac_spend env uid c")
  have "c2 = c1 \<or> determine_reward_policy eng env uid amt c1 = (res, c2)"
  proof (cases "as_number v")
    case (Inl e)
    with assms True sp show ?thesis by (simp add: determine_reward_def)
  next
    case (Inr spend)
    with assms True sp show ?thesis
      by (cases "spend + amt > real_of_int (get_daily_cac_cap (policy_config eng) pn)")
         (simp_all add: determine_reward_def)
  qed
  with sp show ?thesis by blast
qed

lemma determine_reward_kept:
  assumes "determine_reward eng env uid pn amt xp_pts c = (res, c2)"
  shows "entry_kept (env_now env) (c k) (c2 k)"
  using determine_reward_cache [OF assms]
  by (auto dest: determine_reward_policy_kept get_daily_cac_spend_kept intro: entry_kept_trans)

subsection \<open>The structure of a fresh computation\<close>

lemma select_reward_xp_zero: "select_reward seed amt cum ws = (XP, v) \<Longrightarrow> v = 0"
  by (induction ws arbitrary: cum) (auto split: if_splits)

lemma select_reward_type_amount:
  "fst (select_reward seed a1 cum ws) = fst (select_reward seed a2 cum ws)"
  by (induction ws arbitrary: cum) auto

lemma decide_hit:
  assumes "idempotency_hit eng env r c"
  shows "decide eng env r c =
           (RewardDecisionResponse_load (fst (cache_get (env_now env) (build_idempotency_key r) c)),
            snd (cache_get (env_now env) (build_idempotency_key r) c))"
  using assms by (simp add: idempotency_hit_def decide_def split_beta)

lemma decide_miss:
  assumes "\<not> idempotency_hit eng env r c"
    and "c0 = (if enable_idempotency (settings eng)
           then snd (cache_get (env_now env) (build_idempotency_key r) c) else c)"
  shows "decide eng env r c =
     (case get_persona eng env (user_id r) c0 of
              (Inl e, c1) \<Rightarrow> (Inl e, c1)
            | (Inr p, c1) \<Rightarrow>
                (let persona_name = PersonaType_value (persona p);
                     xp_pts = calculate_xp (policy_config eng) (amount r) persona_name
                 in case determine_reward eng env (user_id r) persona_name (amount r) xp_pts c1 of
                      (Inl e, c2) \<Rightarrow> (Inl e, c2)
                    | (Inr (rt, rv), c2) \<Rightarrow>
                        (case RewardDecisionResponse_new
                                \<lparr>decision_id = env_uuid env,
                                 policy_version = version (policy_config eng),
                                 reward_type = rt,
                                 reward_value = rv,
                                 xp = xp_pts,
                                 reason_codes = get_reason_codes (policy_config eng) persona_name rt,
                                 meta = \<lparr>meta_persona = persona_name,
                                         meta_multiplier =
                                           get_persona_multiplier (policy_config eng) persona_name,
                                         meta_txn_id = txn_id r,
                                         meta_user_id = user_id r,
                                         meta_merchant_id = merchant_id r\<rparr>\<rparr> of
                           Inl e \<Rightarrow> (Inl e, c2)
                         | Inr decision \<Rightarrow>
                             (let c3 = (if enable_idempotency (settings eng)
                                        then cache_set (env_now env) (build_idempotency_key r)
                                               (VDecision decision)
                                               (Some (idempotency_ttl (settings eng))) c2
                                        else c2)
                              in (Inr decision,
                                  update_last_reward eng env (user_id r) (ts r) c3)))))"
  using assms unfolding decide_def idempotency_hit_def
  by (cases "enable_idempotency (settings eng)") (simp_all add: split_beta)

lemma decide_fresh:
  assumes miss: "\<not> idempotency_hit eng env r c"
    and dec: "decide eng env r c = (Inr d, c')"
  obtains c0 p c1 rt rv c2 where
    "c0 = (if enable_idempotency (settings eng)
           then snd (cache_get (env_now env) (build_idempotency_key r) c) else c)"
    "get_persona eng env (user_id r) c0 = (Inr p, c1)"
    "determine_reward eng env (user_id r) (PersonaType_value (persona p)) (amount r)
       (calculate_xp (policy_config eng) (amount r) (PersonaType_value (persona p))) c1
       = (Inr (rt, rv), c2)"
    "0 \<le> rv"
    "0 \<le> calculate_xp (policy_config eng) (amount r) (PersonaType_value (persona p))"
    "d = \<lparr>decision_id = env_uuid env,
          policy_version = version (policy_config eng),
          reward_type = rt,
          reward_value = rv,
          xp = calculate_xp (policy_config eng) (amount r) (PersonaType_value (persona p)),
          reason_codes = get_reason_codes (policy_config eng) (PersonaType_value (persona p)) rt,
          meta = \<lparr>meta_persona = PersonaType_value (persona p),
                  meta_multiplier =
                    get_persona_multiplier (policy_config eng) (PersonaType_value (persona p)),
                  meta_txn_id = txn_id r,
                  meta_user_id = user_id r,
                  meta_merchant_id = merchant_id r\<rparr>\<rparr>"
    "c' = update_last_reward eng env (user_id r) (ts r)
            (if enable_idempotency (settings eng)
             then cache_set (env_now env) (build_idempotency_key r) (VDecision d)
                    (Some (idempotency_ttl (settings eng))) c2
             else c2)"
proof -
  define c0 where "c0 = (if enable_idempotency (settings eng)
           then snd (cache_get (env_now env) (build_idempotency_key r) c) else c)"
  obtain pr c1 where gp: "get_persona eng env (user_id r) c0 = (pr, c1)"
    by (cases "get_persona eng env (user_id r) c0")
  note step1 = decide_miss [OF miss c0_def]
  from dec step1 gp obtain p where p: "pr = Inr p"
    by (cases pr) auto
  let ?pn = "PersonaType_value (persona p)"
  let ?xp = "calculate_xp (policy_config eng) (amount r) ?pn"
  obtain dr c2 where dr: "determine_reward eng env (user_id r) ?pn (amount r) ?xp c1 = (dr, c2)"
    by (cases "determine_reward eng env (user_id r) ?pn (amount r) ?xp c1")
  from dec step1 gp p dr obtain rt rv where res: "dr = Inr (rt, rv)"
    by (cases dr) (auto simp: Let_def)
  let ?d = "\<lparr>decision_id = env_uuid env,
          policy_version = version (policy_config eng),
          reward_type = rt,
          reward_value = rv,
          xp = ?xp,
          reason_codes = get_reason_codes (policy_config eng) ?pn rt,
          meta = \<lparr>meta_persona = ?pn,
                  meta_multiplier = get_persona_multiplier (policy_config eng) ?pn,
                  meta_txn_id = txn_id r,
                  meta_user_id = user_id r,
                  meta_merchant_id = merchant_id r\<rparr>\<rparr>"
  from dec step1 gp p dr res have ok: "0 \<le> rv \<and> 0 \<le> ?xp"
    by (auto simp: Let_def RewardDecisionResponse_new_def split: if_splits)
  then have new: "RewardDecisionResponse_new ?d = Inr ?d"
    by (simp add: RewardDecisionResponse_new_def)
  from dec step1 gp p dr res new have d: "d = ?d"
    and c': "c' = update_last_reward eng env (user_id r) (ts r)
            (if enable_idempotency (settings eng)
             then cache_set (env_now env) (build_idempotency_key r) (VDecision ?d)
                    (Some (idempotency_ttl (settings eng))) c2
             else c2)"
    by (simp_all add: Let_def)
  show thesis
    using that [OF c0_def gp [unfolded p] dr [unfolded res] conjunct1 [OF ok] conjunct2 [OF ok] d]
      c' d by simp
qed

lemma idem_key_not_persona [simp]: "build_idempotency_key r \<noteq> ''persona:'' @ u"
  by (simp add: build_idempotency_key_def)

lemma idem_key_not_last_reward [simp]: "build_idempotency_key r \<noteq> ''last_reward:'' @ u"
  by (simp add: build_idempotency_key_def)

lemma idem_key_not_cac [simp]: "build_idempotency_key r \<noteq> ''cac:'' @ u"
  by (simp add: build_idempotency_key_def)

lemma lookup_other:
  assumes "c0 = (if b then snd (cache_get now key c) else c)" and "k \<noteq> key"
  shows "c0 k = c k"
proof (cases b)
  case True
  obtain v c1 where g: "cache_get now key c = (v, c1)" by (cases "cache_get now key c")
  from cache_get_other [OF g assms(2)] True assms(1) g show ?thesis by simp
next
  case False
  with assms(1) show ?thesis by simp
qed

lemma cap_exceeded_cong:
  assumes "c1 (''cac:'' @ uid @ '':'' @ env_today env) = c (''cac:'' @ uid @ '':'' @ env_today env)"
  shows "cap_exceeded eng env uid pn amt c1 = cap_exceeded eng env uid pn amt c"
  using get_daily_cac_spend_fst_cong [where ?c1.0 = c1 and c = c and uid = uid and env = env, OF assms]
  by (simp add: cap_exceeded_def)

lemma cooldown_applies_cong:
  assumes "c1 (''last_reward:'' @ uid) = c (''last_reward:'' @ uid)"
  shows "cooldown_applies eng env uid c1 = cooldown_applies eng env uid c"
  using is_in_cooldown_fst_cong [where ?c1.0 = c1 and c = c and uid = uid and eng = eng and env = env, OF assms]
  by (simp add: cooldown_applies_def)

lemma decide_fresh_persona:
  assumes "c0 = (if enable_idempotency (settings eng)
           then snd (cache_get (env_now env) (build_idempotency_key r) c) else c)"
    and "get_persona eng env (user_id r) c0 = (Inr p, c1)"
  shows "fst (get_persona eng env (user_id r) c) = Inr p"
proof -
  have "c0 (''persona:'' @ user_id r) = c (''persona:'' @ user_id r)"
    using assms(1) by (rule lookup_other) (simp add: build_idempotency_key_def)
  from get_persona_fst_cong [where ?c1.0 = c0 and c = c and uid = "user_id r" and eng = eng and env = env, OF this] assms(2)
  show ?thesis by simp
qed

lemma decide_fresh_selects:
  assumes miss: "\<not> idempotency_hit eng env r c"
    and dec: "decide eng env r c = (Inr d, c')"
    and free: "\<not> rule_interferes eng env r c"
  shows "(reward_type d, reward_value d) =
           select_reward (py_hash eng (user_id r) mod 100) (amount r) 0
             (get_reward_type_weights (policy_config eng))"
proof -
  from miss dec obtain c0 p c1 rt rv c2 where
    c0: "c0 = (if enable_idempotency (settings eng)
           then snd (cache_get (env_now env) (build_idempotency_key r) c) else c)"
    and gp: "get_persona eng env (user_id r) c0 = (Inr p, c1)"
    and dr: "determine_reward eng env (user_id r) (PersonaType_value (persona p)) (amount r)
       (calculate_xp (policy_config eng) (amount r) (PersonaType_value (persona p))) c1
       = (Inr (rt, rv), c2)"
    and d: "reward_type d = rt" "reward_value d = rv"
    by (rule decide_fresh) simp
  have p: "fst (get_persona eng env (user_id r) c) = Inr p"
    using c0 gp by (rule decide_fresh_persona)
  have same: "c1 k = c k" if "k \<noteq> build_idempotency_key r" "k \<noteq> ''persona:'' @ user_id r" for k
    using get_persona_other [OF gp that(2)] lookup_other [OF c0 that(1)] by simp
  have cac: "c1 (''cac:'' @ user_id r @ '':'' @ env_today env) = c (''cac:'' @ user_id r @ '':'' @ env_today env)"
    by (rule same) (simp_all add: build_idempotency_key_def)
  have lr: "c1 (''last_reward:'' @ user_id r) = c (''last_reward:'' @ user_id r)"
    by (rule same) (simp_all add: build_idempotency_key_def)
  from free p have
    "\<not> cap_exceeded eng env (user_id r) (PersonaType_value (persona p)) (amount r) c"
    "\<not> prefer_xp_mode (policy_config eng)"
    "\<not> cooldown_applies eng env (user_id r) c"
    by (simp_all add: rule_interferes_def)
  then have
    "\<not> cap_exceeded eng env (user_id r) (PersonaType_value (persona p)) (amount r) c1"
    "\<not> prefer_xp_mode (policy_config eng)"
    "\<not> cooldown_applies eng env (user_id r) c1"
    using cap_exceeded_cong [where ?c1.0 = c1 and c = c and uid = "user_id r" and env = env and eng = eng
        and pn = "PersonaType_value (persona p)" and amt = "amount r", OF cac]
      cooldown_applies_cong [where ?c1.0 = c1 and c = c and uid = "user_id r" and eng = eng and env = env, OF lr]
    by simp_all
  from determine_reward_select [OF dr this] d show ?thesis by simp
qed

subsection \<open>The XP of a fresh decision\<close>



subsection \<open>The time of the last reward\<close>

text \<open>
  Claim C10. A fresh call of \<^verbatim>\<open>decide\<close> that returns a decision leaves under
  \<^verbatim>\<open>last_reward:{user_id}\<close> the \<^verbatim>\<open>ts\<close> of the request when it is present and not zero, and
  the current time as an integer otherwise, so that an explicit \<^verbatim>\<open>ts = 0\<close> counts as
  absent; the entry expires after \<^verbatim>\<open>last_reward_cache_ttl\<close> seconds. Nothing is assumed
  about the path that chose the reward: the instance below is a request over the daily
  cap with \<^verbatim>\<open>ts = 0\<close>.
\<close>

theorem C10_last_reward_written:
  assumes "\<not> idempotency_hit eng env r c"
    and "decide eng env r c = (Inr d, c')"
  shows "c' (''last_reward:'' @ user_id r) =
           Some (VInt (case ts r of
                         Some t \<Rightarrow> if t \<noteq> 0 then t else py_int (env_now env)
                       | None \<Rightarrow> py_int (env_now env)),
                 Some (env_now env + real_of_int (last_reward_cache_ttl (settings eng))))"
proof -
  from assms obtain c3 where "c' = update_last_reward eng env (user_id r) (ts r) c3"
    by (rule decide_fresh)
  then show ?thesis
    by (simp add: update_last_reward_def Let_def cache_set_def)
qed

theorem C10_last_reward_written_witness:
  "\<not> idempotency_hit returning_engine (sample_env 1000 ''d1'')
         ((sample_request 200)\<lparr>ts := Some 0\<rparr>) (spent_cache 900)
   \<and> fst (decide returning_engine (sample_env 1000 ''d1'')
         ((sample_request 200)\<lparr>ts := Some 0\<rparr>) (spent_cache 900))
       = Inr ((sample_decision ''d1'' XP 0 30)
               \<lparr>reason_codes := [''RETURNING_USER'', ''XP_MODE_ENABLED''],
                 meta := \<lparr>meta_persona = ''RETURNING'', meta_multiplier = 3 / 2, meta_txn_id = ''t1'',
                          meta_user_id = ''u1'', meta_merchant_id = ''m1''\<rparr>\<rparr>)
   \<and> snd (decide returning_engine (sample_env 1000 ''d1'')
         ((sample_request 200)\<lparr>ts := Some 0\<rparr>) (spent_cache 900)) ''last_reward:u1''
       = Some (VInt 1000, Some 87400)"
proof -
  let ?E = "returning_engine" and ?V = "sample_env 1000 ''d1''"
  let ?R = "(sample_request 200)\<lparr>ts := Some 0\<rparr>" and ?C = "spent_cache 900"
  let ?D = "(sample_decision ''d1'' XP 0 30)
               \<lparr>reason_codes := [''RETURNING_USER'', ''XP_MODE_ENABLED''],
                 meta := \<lparr>meta_persona = ''RETURNING'', meta_multiplier = 3 / 2, meta_txn_id = ''t1'',
                          meta_user_id = ''u1'', meta_merchant_id = ''m1''\<rparr>\<rparr>"
  have miss: "\<not> idempotency_hit ?E ?V ?R ?C"
    by (simp add: notion_defs sample_defs engine_defs)
  have res: "fst (decide ?E ?V ?R ?C) = Inr ?D"
    by (simp add: notion_defs sample_defs config_defs engine_defs)
  then have run: "decide ?E ?V ?R ?C = (Inr ?D, snd (decide ?E ?V ?R ?C))"
    by (simp add: prod_eq_iff)
  from C10_last_reward_written [OF miss run] miss res show ?thesis
    by (simp add: sample_defs returning_engine_def py_int_def)
qed

subsection \<open>The reward type does not depend on the amount\<close>

text \<open>
  Claim C7. Two fresh calls of \<^verbatim>\<open>decide\<close> on the same engine (the same policy and the
  same hash) for the same user, with any amounts, transaction and merchant identifiers,
  clocks and caches, return decisions of the same reward type, provided that in neither
  run the daily cap, the cooldown or the prefer-XP mode interferes.
\<close>

theorem C7_type_independent_of_amount:
  assumes "user_id r1 = user_id r2"
    and "\<not> idempotency_hit eng env1 r1 c1" and "\<not> idempotency_hit eng env2 r2 c2"
    and "decide eng env1 r1 c1 = (Inr d1, c1')" and "decide eng env2 r2 c2 = (Inr d2, c2')"
    and "\<not> rule_interferes eng env1 r1 c1" and "\<not> rule_interferes eng env2 r2 c2"
  shows "reward_type d1 = reward_type d2"
proof -
  let ?ws = "get_reward_type_weights (policy_config eng)"
  have "reward_type d1 = fst (select_reward (py_hash eng (user_id r1) mod 100) (amount r1) 0 ?ws)"
    using decide_fresh_selects [OF assms(2,4,6)] by (simp add: prod_eq_iff)
  moreover
  have "reward_type d2 = fst (select_reward (py_hash eng (user_id r2) mod 100) (amount r2) 0 ?ws)"
    using decide_fresh_selects [OF assms(3,5,7)] by (simp add: prod_eq_iff)
  ultimately show ?thesis
    using assms(1) select_reward_type_amount [of "py_hash eng (user_id r2) mod 100" "amount r1" 0 ?ws "amount r2"]
    by simp
qed

theorem C7_type_independent_of_amount_witness:
  "fst (decide (sample_engine 75) (sample_env 1000 ''d1'') (sample_request 100) Map.empty)
     = Inr (sample_decision ''d1'' CHECKOUT 5 10)
   \<and> fst (decide (sample_engine 75) (sample_env 2000 ''d2'')
            ((sample_request 5000)\<lparr>txn_id := ''t2''\<rparr>) Map.empty)
     = Inr ((sample_decision ''d2'' CHECKOUT 250 500)
              \<lparr>meta := (meta (sample_decision ''d2'' CHECKOUT 250 500))\<lparr>meta_txn_id := ''t2''\<rparr>\<rparr>)
   \<and> reward_type (sample_decision ''d1'' CHECKOUT 5 10)
     = reward_type ((sample_decision ''d2'' CHECKOUT 250 500)
              \<lparr>meta := (meta (sample_decision ''d2'' CHECKOUT 250 500))\<lparr>meta_txn_id := ''t2''\<rparr>\<rparr>)"
proof -
  let ?E = "sample_engine 75"
  let ?V1 = "sample_env 1000 ''d1''" and ?R1 = "sample_request 100"
  let ?V2 = "sample_env 2000 ''d2''" and ?R2 = "(sample_request 5000)\<lparr>txn_id := ''t2''\<rparr>"
  let ?D1 = "sample_decision ''d1'' CHECKOUT 5 10"
  let ?D2 = "(sample_decision ''d2'' CHECKOUT 250 500)
              \<lparr>meta := (meta (sample_decision ''d2'' CHECKOUT 250 500))\<lparr>meta_txn_id := ''t2''\<rparr>\<rparr>"
  have user: "user_id ?R1 = user_id ?R2" by (simp add: sample_defs)
  have miss1: "\<not> idempotency_hit ?E ?V1 ?R1 Map.empty"
    by (simp add: notion_defs sample_defs engine_defs)
  have miss2: "\<not> idempotency_hit ?E ?V2 ?R2 Map.empty"
    by (simp add: notion_defs sample_defs engine_defs)
  have res1: "fst (decide ?E ?V1 ?R1 Map.empty) = Inr ?D1"
    by (simp add: notion_defs sample_defs config_defs engine_defs)
  have res2: "fst (decide ?E ?V2 ?R2 Map.empty) = Inr ?D2"
    by (simp add: notion_defs sample_defs config_defs engine_defs)
  have run1: "decide ?E ?V1 ?R1 Map.empty = (Inr ?D1, snd (decide ?E ?V1 ?R1 Map.empty))"
    using res1 by (simp add: prod_eq_iff)
  have run2: "decide ?E ?V2 ?R2 Map.empty = (Inr ?D2, snd (decide ?E ?V2 ?R2 Map.empty))"
    using res2 by (simp add: prod_eq_iff)
  have free1: "\<not> rule_interferes ?E ?V1 ?R1 Map.empty"
    by (simp add: notion_defs sample_defs config_defs engine_defs)
  have free2: "\<not> rule_interferes ?E ?V2 ?R2 Map.empty"
    by (simp add: notion_defs sample_defs config_defs engine_defs)
  from C7_type_independent_of_amount [OF user miss1 miss2 run1 run2 free1 free2] res1 res2
  show ?thesis by simp
qed

subsection \<open>The daily spend counters\<close>







subsection \<open>Idempotent replay\<close>

text \<open>
  Claim C2, as the code has it. With idempotency on, after a fresh call that returned a
  decision, a second call with the same transaction, user and merchant identifiers, with
  any amount, type and timestamp, made no later than \<^verbatim>\<open>idempotency_ttl\<close> seconds after
  the first, returns the very decision of the first call and leaves the cache exactly as
  it found it: nothing is computed again and nothing is written.
\<close>

theorem C2_replay_within_ttl:
  assumes "enable_idempotency (settings eng)"
    and "\<not> idempotency_hit eng env1 r1 c"
    and "decide eng env1 r1 c = (Inr d1, c1)"
    and "txn_id r2 = txn_id r1" and "user_id r2 = user_id r1" and "merchant_id r2 = merchant_id r1"
    and "env_now env2 \<le> env_now env1 + real_of_int (idempotency_ttl (settings eng))"
  shows "decide eng env2 r2 c1 = (Inr d1, c1)"
proof -
  from assms(2,3) obtain c2 where
    ok: "0 \<le> reward_value d1" "0 \<le> xp d1"
    and c1: "c1 = update_last_reward eng env1 (user_id r1) (ts r1)
            (if enable_idempotency (settings eng)
             then cache_set (env_now env1) (build_idempotency_key r1) (VDecision d1)
                    (Some (idempotency_ttl (settings eng))) c2
             else c2)"
    by (rule decide_fresh) simp
  have key: "build_idempotency_key r2 = build_idempotency_key r1"
    using assms(4-6) by (simp add: build_idempotency_key_def)
  have entry: "c1 (build_idempotency_key r1)
                 = Some (VDecision d1, Some (env_now env1 + real_of_int (idempotency_ttl (settings eng))))"
    using c1 assms(1)
    by (simp add: update_last_reward_def Let_def cache_set_def build_idempotency_key_def)
  have get: "cache_get (env_now env2) (build_idempotency_key r2) c1 = (Some (VDecision d1), c1)"
    using entry assms(7) key by (simp add: cache_get_def)
  then have hit: "idempotency_hit eng env2 r2 c1"
    using assms(1) by (simp add: idempotency_hit_def)
  from decide_hit [OF hit] get ok show ?thesis
    by (simp add: RewardDecisionResponse_new_def)
qed

theorem C2_replay_within_ttl_witness:
  "fst (decide (sample_engine 75) (sample_env 1000 ''d1'') (sample_request 100) Map.empty)
     = Inr (sample_decision ''d1'' CHECKOUT 5 10)
   \<and> decide (sample_engine 75) (sample_env 87400 ''d2'') (sample_request 5000)
        (snd (decide (sample_engine 75) (sample_env 1000 ''d1'') (sample_request 100) Map.empty))
     = (Inr (sample_decision ''d1'' CHECKOUT 5 10),
        snd (decide (sample_engine 75) (sample_env 1000 ''d1'') (sample_request 100) Map.empty))"
proof -
  let ?E = "sample_engine 75" and ?V1 = "sample_env 1000 ''d1''" and ?V2 = "sample_env 87400 ''d2''"
  let ?R1 = "sample_request 100" and ?R2 = "sample_request 5000"
  let ?D = "sample_decision ''d1'' CHECKOUT 5 10"
  have on: "enable_idempotency (settings ?E)" by (simp add: sample_defs)
  have miss: "\<not> idempotency_hit ?E ?V1 ?R1 Map.empty"
    by (simp add: notion_defs sample_defs engine_defs)
  have res: "fst (decide ?E ?V1 ?R1 Map.empty) = Inr ?D"
    by (simp add: notion_defs sample_defs config_defs engine_defs)
  then have run: "decide ?E ?V1 ?R1 Map.empty = (Inr ?D, snd (decide ?E ?V1 ?R1 Map.empty))"
    by (simp add: prod_eq_iff)
  have ids: "txn_id ?R2 = txn_id ?R1" "user_id ?R2 = user_id ?R1" "merchant_id ?R2 = merchant_id ?R1"
    by (simp_all add: sample_defs)
  have ttl: "env_now ?V2 \<le> env_now ?V1 + real_of_int (idempotency_ttl (settings ?E))"
    by (simp add: sample_defs)
  from C2_replay_within_ttl [OF on miss run ids ttl] res show ?thesis
    by simp
qed

text \<open>
  The claim as worded puts no bound on the time of the second call, and fails: the entry
  is stored with the expiry \<^verbatim>\<open>idempotency_ttl\<close> (86400 seconds by default), and a second
  call 86401 seconds after the first misses the cache, computes a new decision with a
  new \<^verbatim>\<open>decision_id\<close> and writes it.
\<close>

theorem C2_expired_replay_recomputes:
  "fst (decide (sample_engine 75) (sample_env 1000 ''d1'') (sample_request 100) Map.empty)
     = Inr (sample_decision ''d1'' CHECKOUT 5 10)
   \<and> fst (decide (sample_engine 75) \<lparr>env_now = 87401, env_today = ''2024-01-21'', env_uuid = ''d2''\<rparr>
            (sample_request 100)
            (snd (decide (sample_engine 75) (sample_env 1000 ''d1'') (sample_request 100) Map.empty)))
     = Inr (sample_decision ''d2'' CHECKOUT 5 10)
   \<and> decision_id (sample_decision ''d2'' CHECKOUT 5 10) \<noteq> decision_id (sample_decision ''d1'' CHECKOUT 5 10)"
  by (simp add: notion_defs sample_defs config_defs engine_defs)

subsection \<open>An XP decision carries no value\<close>

lemma cache_ok_kept:
  assumes "cache_ok c" and "\<And>k. entry_kept now (c k) (c1 k)"
  shows "cache_ok c1"
  unfolding cache_ok_def
proof (intro allI impI)
  fix k d e assume h: "c1 k = Some (VDecision d, e)"
  from assms(2) [of k] h have "c k = Some (VDecision d, e)"
    by (auto simp: entry_kept_def)
  with assms(1) show "xp_pays_nothing d" by (auto simp: cache_ok_def)
qed

lemma cache_ok_set:
  assumes "cache_ok c" and "\<And>d. v = VDecision d \<Longrightarrow> xp_pays_nothing d"
  shows "cache_ok (cache_set now k v ttl c)"
  using assms by (auto simp: cache_ok_def cache_set_def)

lemma cache_ok_get:
  assumes "cache_ok c" and "cache_get now k c = (v, c1)"
  shows "cache_ok c1"
  using assms(1) cache_get_kept [OF assms(2)] by (rule cache_ok_kept)

lemma cache_ok_get_decision:
  assumes "cache_ok c" and "fst (cache_get now k c) = Some (VDecision d)"
  shows "xp_pays_nothing d"
  using assms
  by (auto simp: cache_ok_def cache_get_def split: option.splits prod.splits if_splits)

lemma cache_ok_lookup:
  assumes "cache_ok c" and "c0 = (if b then snd (cache_get now key c) else c)"
  shows "cache_ok c0"
proof (cases b)
  case True
  obtain v c1 where g: "cache_get now key c = (v, c1)" by (cases "cache_get now key c")
  from cache_ok_get [OF assms(1) g] True assms(2) g show ?thesis by simp
next
  case False
  with assms show ?thesis by simp
qed

lemma cache_ok_get_persona:
  assumes "cache_ok c" and "get_persona eng env uid c = (res, c1)"
  shows "cache_ok c1"
proof -
  obtain cached c0 where g: "cache_get (env_now env) (''persona:'' @ uid) c = (cached, c0)"
    by (cases "cache_get (env_now env) (''persona:'' @ uid) c")
  have ok0: "cache_ok c0" using assms(1) g by (rule cache_ok_get)
  show ?thesis
  proof (cases "truthy cached")
    case True
    with assms(2) g have "c1 = c0" by (simp add: get_persona_def)
    with ok0 show ?thesis by simp
  next
    case False
    with assms(2) g obtain p where
      "c1 = cache_set (env_now env) (''persona:'' @ uid) (VPersona p) (Some (persona_cache_ttl (settings eng))) c0"
      by (auto simp: get_persona_def Let_def)
    with ok0 show ?thesis by (auto intro: cache_ok_set)
  qed
qed

lemma cache_ok_determine_reward:
  assumes "cache_ok c" and "determine_reward eng env uid pn amt xp_pts c = (res, c2)"
  shows "cache_ok c2"
  using assms(1) determine_reward_kept [OF assms(2)] by (rule cache_ok_kept)

lemma determine_reward_policy_xp:
  assumes "determine_reward_policy eng env uid amt c = (Inr (XP, rv), c1)"
  shows "rv = 0"
proof -
  let ?sel = "select_reward (py_hash eng uid mod 100) amt 0 (get_reward_type_weights (policy_config eng))"
  have "(XP, rv) = (XP, 0) \<or> (XP, rv) = ?sel"
  proof (cases "prefer_xp_mode (policy_config eng)")
    case True
    with assms show ?thesis by (simp add: determine_reward_policy_def)
  next
    case noxp: False
    show ?thesis
    proof (cases "cooldown_enabled (policy_config eng)")
      case False
      with noxp assms show ?thesis by (simp add: determine_reward_policy_def)
    next
      case True
      obtain b c' where cd: "is_in_cooldown eng env uid c = (b, c')"
        by (cases "is_in_cooldown eng env uid c")
      with noxp True assms show ?thesis
        by (cases b) (auto simp: determine_reward_policy_def split: if_splits)
    qed
  qed
  then show ?thesis
    using select_reward_xp_zero [of "py_hash eng uid mod 100" amt 0 "get_reward_type_weights (policy_config eng)" rv]
    by auto
qed

lemma determine_reward_xp:
  assumes "determine_reward eng env uid pn amt xp_pts c = (Inr (XP, rv), c2)"
  shows "rv = 0"
proof (cases "0 < get_daily_cac_cap (policy_config eng) pn")
  case False
  with assms have "determine_reward_policy eng env uid amt c = (Inr (XP, rv), c2)"
    by (simp add: determine_reward_def)
  then show ?thesis by (rule determine_reward_policy_xp)
next
  case True
  obtain v c1 where sp: "get_daily_cac_spend env uid c = (v, c1)"
    by (cases "get_daily_cac_spend env uid c")
  show ?thesis
  proof (cases "as_number v")
    case (Inl e)
    with assms True sp show ?thesis by (simp add: determine_reward_def)
  next
    case (Inr spend)
    show ?thesis
    proof (cases "spend + amt > real_of_int (get_daily_cac_cap (policy_config eng) pn)")
      case over: True
      with assms True sp Inr show ?thesis by (simp add: determine_reward_def)
    next
      case False
      with assms True sp Inr have "determine_reward_policy eng env uid amt c1 = (Inr (XP, rv), c2)"
        by (simp add: determine_reward_def)
      then show ?thesis by (rule determine_reward_policy_xp)
    qed
  qed
qed


lemma load_Inr: "RewardDecisionResponse_load v = Inr d \<Longrightarrow> v = Some (VDecision d)"
  by (cases v rule: RewardDecisionResponse_load.cases)
     (auto simp: RewardDecisionResponse_new_def split: if_splits)

lemma cache_ok_update_last_reward:
  "cache_ok c \<Longrightarrow> cache_ok (update_last_reward eng env uid t c)"
  by (auto simp: update_last_reward_def Let_def intro: cache_ok_set)

lemma decide_ok:
  assumes "cache_ok c"
  shows "cache_ok (snd (decide eng env r c))
       \<and> (\<forall>d. fst (decide eng env r c) = Inr d \<longrightarrow> xp_pays_nothing d)"
proof -
  define c0 where "c0 = (if enable_idempotency (settings eng)
           then snd (cache_get (env_now env) (build_idempotency_key r) c) else c)"
  have ok0: "cache_ok c0"
    using assms c0_def by (rule cache_ok_lookup)
  show ?thesis
  proof (cases "idempotency_hit eng env r c")
    case True
    then have dec: "decide eng env r c =
        (RewardDecisionResponse_load (fst (cache_get (env_now env) (build_idempotency_key r) c)), c0)"
      by (simp add: decide_hit c0_def idempotency_hit_def)
    have "xp_pays_nothing d" if "fst (decide eng env r c) = Inr d" for d
    proof -
      from that dec have "fst (cache_get (env_now env) (build_idempotency_key r) c) = Some (VDecision d)"
        by (simp add: load_Inr)
      with assms show ?thesis by (rule cache_ok_get_decision)
    qed
    with dec ok0 show ?thesis by simp
  next
    case miss: False
    note dec = decide_miss [OF miss c0_def]
    obtain pr c1 where gp: "get_persona eng env (user_id r) c0 = (pr, c1)"
      by (cases "get_persona eng env (user_id r) c0")
    have ok1: "cache_ok c1" using ok0 gp by (rule cache_ok_get_persona)
    show ?thesis
    proof (cases pr)
      case (Inl e)
      with dec gp have "decide eng env r c = (Inl e, c1)" by simp
      with ok1 show ?thesis by simp
    next
      case (Inr p)
      let ?pn = "PersonaType_value (persona p)"
      let ?xp = "calculate_xp (policy_config eng) (amount r) ?pn"
      obtain dr c2 where dr: "determine_reward eng env (user_id r) ?pn (amount r) ?xp c1 = (dr, c2)"
        by (cases "determine_reward eng env (user_id r) ?pn (amount r) ?xp c1")
      have ok2: "cache_ok c2" using ok1 dr by (rule cache_ok_determine_reward)
      show ?thesis
      proof (cases dr)
        case (Inl e)
        with dec gp Inr dr have "decide eng env r c = (Inl e, c2)" by (simp add: Let_def)
        with ok2 show ?thesis by simp
      next
        case res: (Inr pair)
        obtain rt rv where pair: "pair = (rt, rv)" by (cases pair)
        let ?d = "\<lparr>decision_id = env_uuid env,
          policy_version = version (policy_config eng),
          reward_type = rt,
          reward_value = rv,
          xp = ?xp,
          reason_codes = get_reason_codes (policy_config eng) ?pn rt,
          meta = \<lparr>meta_persona = ?pn,
                  meta_multiplier = get_persona_multiplier (policy_config eng) ?pn,
                  meta_txn_id = txn_id r,
                  meta_user_id = user_id r,
                  meta_merchant_id = merchant_id r\<rparr>\<rparr>"
        have good: "xp_pays_nothing ?d"
          using dr res pair determine_reward_xp [of eng env "user_id r" ?pn "amount r" ?xp c1 rv c2]
          by (simp add: xp_pays_nothing_def)
        show ?thesis
        proof (cases "0 \<le> rv \<and> 0 \<le> ?xp")
          case False
          with dec gp Inr dr res pair have "decide eng env r c = (Inl ValidationError, c2)"
            by (simp add: Let_def RewardDecisionResponse_new_def)
          with ok2 show ?thesis by simp
        next
          case True
          with dec gp Inr dr res pair have run: "decide eng env r c =
              (Inr ?d, update_last_reward eng env (user_id r) (ts r)
                 (if enable_idempotency (settings eng)
                  then cache_set (env_now env) (build_idempotency_key r) (VDecision ?d)
                         (Some (idempotency_ttl (settings eng))) c2
                  else c2))"
            by (simp add: Let_def RewardDecisionResponse_new_def)
          have "cache_ok (if enable_idempotency (settings eng)
                  then cache_set (env_now env) (build_idempotency_key r) (VDecision ?d)
                         (Some (idempotency_ttl (settings eng))) c2
                  else c2)"
            using ok2 good by (auto intro: cache_ok_set)
          then have "cache_ok (snd (decide eng env r c))"
            unfolding run snd_conv by (rule cache_ok_update_last_reward)
          moreover have "\<forall>d. fst (decide eng env r c) = Inr d \<longrightarrow> xp_pays_nothing d"
            using good unfolding run by simp
          ultimately show ?thesis by simp
        qed
      qed
    qed
  qed
qed

lemma cache_ok_update_daily_cac_spend:
  assumes "cache_ok c"
  shows "cache_ok (snd (update_daily_cac_spend env uid amt c))"
proof -
  obtain v c1 where sp: "get_daily_cac_spend env uid c = (v, c1)"
    by (cases "get_daily_cac_spend env uid c")
  have ok1: "cache_ok c1"
    using assms get_daily_cac_spend_kept [OF sp] by (rule cache_ok_kept)
  show ?thesis
  proof (cases "as_number v")
    case (Inl e)
    with sp ok1 show ?thesis by (simp add: update_daily_cac_spend_def)
  next
    case (Inr spend)
    with sp ok1 show ?thesis
      by (auto simp: update_daily_cac_spend_def intro: cache_ok_set)
  qed
qed

lemma reachable_ok: "reachable c \<Longrightarrow> cache_ok c"
proof (induction rule: reachable.induct)
  case start
  show ?case by (simp add: cache_ok_def)
next
  case (after_decide c eng env r)
  then show ?case by (simp add: decide_ok)
next
  case (after_spend c env uid amt)
  then show ?case by (simp add: cache_ok_update_daily_cac_spend)
next
  case (after_persona c eng env uid p)
  then show ?case by (auto simp: update_persona_def intro: cache_ok_set)
qed

text \<open>
  Claim C6. Every decision \<^verbatim>\<open>decide\<close> returns, computed afresh or replayed from the
  idempotency cache, has \<^verbatim>\<open>reward_value = 0\<close> when its \<^verbatim>\<open>reward_type\<close> is \<^verbatim>\<open>XP\<close>. The
  cache is any cache the service can reach from the empty one: a replayed decision was
  stored by an earlier call of \<^verbatim>\<open>decide\<close>.
\<close>

theorem C6_xp_pays_nothing:
  assumes "reachable c" and "decide eng env r c = (Inr d, c')"
  shows "reward_type d = XP \<longrightarrow> reward_value d = 0"
proof -
  have "cache_ok c" using assms(1) by (rule reachable_ok)
  from decide_ok [OF this, of eng env r] assms(2) have "xp_pays_nothing d" by simp
  then show ?thesis by (simp add: xp_pays_nothing_def)
qed

theorem C6_xp_pays_nothing_witness:
  "reachable Map.empty
   \<and> fst (decide (sample_engine 0) (sample_env 1000 ''d1'') (sample_request 100) Map.empty)
       = Inr (sample_decision ''d1'' XP 0 10)
   \<and> reachable (snd (decide (sample_engine 0) (sample_env 1000 ''d1'') (sample_request 100) Map.empty))
   \<and> fst (decide (sample_engine 0) (sample_env 2000 ''d2'') (sample_request 5000)
            (snd (decide (sample_engine 0) (sample_env 1000 ''d1'') (sample_request 100) Map.empty)))
       = Inr (sample_decision ''d1'' XP 0 10)
   \<and> reward_type (sample_decision ''d1'' XP 0 10) = XP
   \<and> reward_value (sample_decision ''d1'' XP 0 10) = 0"
proof -
  let ?E = "sample_engine 0" and ?V1 = "sample_env 1000 ''d1''" and ?V2 = "sample_env 2000 ''d2''"
  let ?R1 = "sample_request 100" and ?R2 = "sample_request 5000"
  let ?D = "sample_decision ''d1'' XP 0 10"
  let ?c1 = "snd (decide ?E ?V1 ?R1 Map.empty)"
  have r0: "reachable Map.empty" by (rule reachable.start)
  have r1: "reachable ?c1" using r0 by (rule reachable.after_decide)
  have res1: "fst (decide ?E ?V1 ?R1 Map.empty) = Inr ?D"
    by (simp add: notion_defs sample_defs config_defs engine_defs)
  then have run1: "decide ?E ?V1 ?R1 Map.empty = (Inr ?D, ?c1)"
    by (simp add: prod_eq_iff)
  have res2: "fst (decide ?E ?V2 ?R2 ?c1) = Inr ?D"
    by (simp add: notion_defs sample_defs config_defs engine_defs)
  then have run2: "decide ?E ?V2 ?R2 ?c1 = (Inr ?D, snd (decide ?E ?V2 ?R2 ?c1))"
    by (simp add: prod_eq_iff)
  have xp: "reward_type ?D = XP" by (simp add: sample_decision_def)
  from C6_xp_pays_nothing [OF r0 run1] C6_xp_pays_nothing [OF r1 run2] xp
  have "reward_value ?D = 0" by blast
  with r0 r1 res1 res2 xp show ?thesis by blast
qed

end
